theory Spec2Isabelle
  imports Complex_Main
begin

text \<open>
  A model of \<^verbatim>\<open>src/functions/pix-backend-function.js\<close>, the serverless function that
  logs in at the payment provider, caches the token and creates a PIX deposit. Each function
  of the source is a HOL function of the same name, its steps in the source's order. What a run
  reads from outside (environment variables, JSON parser, HTTP client, clock) is a record of
  parameters; the module-level cache is passed in and returned; a thrown error is a value; the
  network calls and the log line of a run are returned as a list of effects. One invocation
  runs from start to end without another one interleaved.
\<close>

section \<open>JavaScript values\<close>

text \<open>
  The values the function handles come out of \<^verbatim>\<open>JSON.parse\<close> and
  \<^verbatim>\<open>response.json()\<close>: null, booleans, numbers (only whether a number is zero matters
  here, so a number is the rational it denotes), strings, arrays and objects. An object is the
  list of its own properties in insertion order. A value that may be \<^verbatim>\<open>undefined\<close> is a
  \<open>json option\<close>, \<open>None\<close> standing for \<^verbatim>\<open>undefined\<close>. Strings are byte
  strings: text outside ASCII is written as its UTF-8 bytes.
\<close>

datatype json =
    JNull
  | JBool bool
  | JNum rat
  | JStr string
  | JArr "json list"
  | JObj "(string \<times> json) list"

text \<open>JavaScript's ToBoolean on these values (no NaN comes out of JSON).\<close>

fun truthy :: "json \<Rightarrow> bool" where
  "truthy JNull = False"
| "truthy (JBool b) = b"
| "truthy (JNum x) = (x \<noteq> 0)"
| "truthy (JStr s) = (s \<noteq> [])"
| "truthy (JArr xs) = True"
| "truthy (JObj kvs) = True"

definition truthy_val :: "json option \<Rightarrow> bool" where
  "truthy_val v = (case v of None \<Rightarrow> False | Some j \<Rightarrow> truthy j)"

text \<open>An environment variable is \<^verbatim>\<open>undefined\<close> or a string; the empty string is falsy.\<close>

definition truthy_str :: "string option \<Rightarrow> bool" where
  "truthy_str v = (case v of None \<Rightarrow> False | Some s \<Rightarrow> s \<noteq> [])"

text \<open>The operator \<^verbatim>\<open>a || b\<close> on values already computed.\<close>

definition or_else :: "json option \<Rightarrow> json option \<Rightarrow> json option" where
  "or_else a b = (if truthy_val a then a else b)"

text \<open>
  An object literal whose property values may be \<^verbatim>\<open>undefined\<close>, as
  \<^verbatim>\<open>JSON.stringify\<close> serialises it: a property whose value is \<^verbatim>\<open>undefined\<close>
  is left out.
\<close>

fun defined_props :: "(string \<times> json option) list \<Rightarrow> (string \<times> json) list" where
  "defined_props [] = []"
| "defined_props ((k, None) # ps) = defined_props ps"
| "defined_props ((k, Some v) # ps) = (k, v) # defined_props ps"

text \<open>
  The text of an HTTP body: the empty string, or the text \<^verbatim>\<open>JSON.stringify\<close> gives for
  a value; the text is represented by the value it denotes.
\<close>

datatype body_text = Empty_text | JSON_stringify json

definition stringify_object :: "(string \<times> json option) list \<Rightarrow> body_text" where
  "stringify_object ps = JSON_stringify (JObj (defined_props ps))"

text \<open>Decimal digits of a number inside a template string (an HTTP status).\<close>

fun decimal :: "nat \<Rightarrow> string" where
  "decimal n =
     (if n < 10 then [char_of (48 + n)]
      else decimal (n div 10) @ [char_of (48 + n mod 10)])"

declare decimal.simps [simp del]

section \<open>The world around the function\<close>

text \<open>
  A thrown \<^verbatim>\<open>Error\<close> is its message: \<open>Inl msg\<close>; a value returned is \<open>Inr v\<close>.
\<close>

type_synonym 'a thrown = "string + 'a"

record request =
  req_url :: string
  req_method :: string
  req_headers :: "(string \<times> string) list"
  req_body :: body_text

text \<open>
  What \<^verbatim>\<open>fetch\<close> resolves to. \<open>json_result\<close> is the outcome of \<^verbatim>\<open>response.json()\<close>,
  \<open>text_result\<close> the outcome of \<^verbatim>\<open>response.text()\<close> at the place the function calls it
  (first read of the body at login, second read after a failed \<^verbatim>\<open>json()\<close> at deposit).
\<close>

record fetch_response =
  ok :: bool
  status :: nat
  json_result :: "json thrown"
  text_result :: "string thrown"

text \<open>
  Everything one invocation reads from outside: the two environment variables, the JSON
  parser and the HTTP client of the runtime, the clock at its two reads (line 27,
  \<^verbatim>\<open>new Date()\<close>, and line 65, \<^verbatim>\<open>Date.now()\<close>, both in milliseconds), the message of
  the TypeError raised when a property is read from or destructured out of null, and ToString
  of a value that is not a string inside a template.
\<close>

record env =
  CLIENT_ID :: "string option"
  CLIENT_SECRET :: "string option"
  JSON_parse :: "string \<Rightarrow> json thrown"
  fetch :: "request \<Rightarrow> fetch_response thrown"
  clock_check :: int
  clock_store :: int
  null_message :: "string \<Rightarrow> string"
  ToString :: "json \<Rightarrow> string"

datatype effect = Fetch request | Console_error string string

text \<open>
  Reading property \<open>k\<close> of a value, for the property names this function reads (none of
  them is inherited from a prototype): null throws, an object gives its own property, any
  other value gives \<^verbatim>\<open>undefined\<close>.
\<close>

fun member :: "env \<Rightarrow> json \<Rightarrow> string \<Rightarrow> json option thrown" where
  "member e JNull k = Inl (null_message e k)"
| "member e (JObj kvs) k = Inr (map_of kvs k)"
| "member e v k = Inr None"

definition template :: "env \<Rightarrow> json \<Rightarrow> string" where
  "template e v = (case v of JStr s \<Rightarrow> s | _ \<Rightarrow> ToString e v)"

section \<open>Module state and constants\<close>

definition API_URL :: string where
  "API_URL = ''https://api.instapaybr.com''"

text \<open>
  \<^verbatim>\<open>cachedToken\<close> and \<^verbatim>\<open>tokenExpiry\<close>, both \<^verbatim>\<open>null\<close> (\<open>None\<close>) when the module
  is loaded; the expiry is a \<^verbatim>\<open>Date\<close>, kept as its milliseconds.
\<close>

record cache =
  cachedToken :: "json option"
  tokenExpiry :: "int option"

definition initial_cache :: cache where
  "initial_cache = \<lparr>cachedToken = None, tokenExpiry = None\<rparr>"

text \<open>The message texts of the source, as UTF-8 bytes.\<close>

definition msg_credentials :: string where
  "msg_credentials =
     ''Credenciais da Instapay (INSTAPAY_CLIENT_ID ou INSTAPAY_CLIENT_SECRET) n''
     @ [CHR 0xC3, CHR 0xA3] @ ''o configuradas nas Vari'' @ [CHR 0xC3, CHR 0xA1]
     @ ''veis de Ambiente do Netlify.''"

definition msg_auth_failed :: "nat \<Rightarrow> string \<Rightarrow> string" where
  "msg_auth_failed st errorText =
     ''Falha na autentica'' @ [CHR 0xC3, CHR 0xA7, CHR 0xC3, CHR 0xA3] @ ''o (Status ''
     @ decimal st @ ''): '' @ errorText"

definition msg_no_token :: string where
  "msg_no_token =
     ''Resposta de autentica'' @ [CHR 0xC3, CHR 0xA7, CHR 0xC3, CHR 0xA3] @ ''o n''
     @ [CHR 0xC3, CHR 0xA3] @ ''o cont'' @ [CHR 0xC3, CHR 0xA9] @ ''m token JWT.''"

definition msg_method :: string where
  "msg_method =
     ''M'' @ [CHR 0xC3, CHR 0xA9] @ ''todo n'' @ [CHR 0xC3, CHR 0xA3]
     @ ''o permitido. Use POST.''"

definition msg_incomplete :: string where
  "msg_incomplete = ''Dados incompletos. Requer: amount, external_id e payer.''"

definition msg_not_json :: "nat \<Rightarrow> string \<Rightarrow> string" where
  "msg_not_json st errorText =
     ''Resposta da API de Dep'' @ [CHR 0xC3, CHR 0xB3] @ ''sito n'' @ [CHR 0xC3, CHR 0xA3]
     @ ''o '' @ [CHR 0xC3, CHR 0xA9] @ '' JSON. Status: '' @ decimal st
     @ ''. Resposta: '' @ errorText"

definition msg_unknown :: string where
  "msg_unknown =
     ''Erro desconhecido ao criar dep'' @ [CHR 0xC3, CHR 0xB3] @ ''sito na Instapay.''"

definition msg_log :: string where
  "msg_log = ''Erro na Netlify Function:''"

definition msg_internal :: string where
  "msg_internal = ''Erro interno do servidor ao processar PIX.''"

section \<open>authenticate (lines 25 to 68)\<close>

text \<open>The request of line 37.\<close>

definition login_request :: "string option \<Rightarrow> string option \<Rightarrow> request" where
  "login_request cid secret =
     \<lparr>req_url = API_URL @ ''/api/auth/login'',
      req_method = ''POST'',
      req_headers = [(''Content-Type'', ''application/json'')],
      req_body = stringify_object
        [(''client_id'', map_option JStr cid), (''client_secret'', map_option JStr secret)]\<rparr>"

text \<open>
  Line 27: \<^verbatim>\<open>cachedToken && tokenExpiry && new Date() < tokenExpiry\<close>; the result is the
  token to reuse, if any. A \<^verbatim>\<open>Date\<close> object is truthy.
\<close>

definition cache_hit :: "env \<Rightarrow> cache \<Rightarrow> json option" where
  "cache_hit e c =
     (case cachedToken c of
        None \<Rightarrow> None
      | Some t \<Rightarrow>
          if \<not> truthy t then None
          else (case tokenExpiry c of
                  None \<Rightarrow> None
                | Some expiry \<Rightarrow> if clock_check e < expiry then Some t else None))"

text \<open>Line 57: \<^verbatim>\<open>data.token || data.access_token\<close>; the second read happens only when the
  first value is falsy.\<close>

definition token_of :: "env \<Rightarrow> json \<Rightarrow> json option thrown" where
  "token_of e data =
     (case member e data ''token'' of
        Inl m \<Rightarrow> Inl m
      | Inr a \<Rightarrow> if truthy_val a then Inr a else member e data ''access_token'')"

text \<open>Lines 54 to 67, once the login has answered with a success status.\<close>

definition store_token :: "env \<Rightarrow> cache \<Rightarrow> json thrown \<Rightarrow> json thrown \<times> cache" where
  "store_token e c parsed =
     (case parsed of
        Inl m \<Rightarrow> (Inl m, c)
      | Inr data \<Rightarrow>
          (case token_of e data of
             Inl m \<Rightarrow> (Inl m, c)
           | Inr None \<Rightarrow> (Inl msg_no_token, c)
           | Inr (Some token) \<Rightarrow>
               if \<not> truthy token then (Inl msg_no_token, c)
               else (Inr token,
                     \<lparr>cachedToken = Some token,
                      tokenExpiry = Some (clock_store e + 55 * 60 * 1000)\<rparr>)))"

definition authenticate :: "env \<Rightarrow> cache \<Rightarrow> json thrown \<times> cache \<times> effect list" where
  "authenticate e c =
     (case cache_hit e c of
        Some t \<Rightarrow> (Inr t, c, [])
      | None \<Rightarrow>
          if \<not> truthy_str (CLIENT_ID e) \<or> \<not> truthy_str (CLIENT_SECRET e)
          then (Inl msg_credentials, c, [])
          else
            let req = login_request (CLIENT_ID e) (CLIENT_SECRET e)
            in (case fetch e req of
                  Inl m \<Rightarrow> (Inl m, c, [Fetch req])
                | Inr response \<Rightarrow>
                    if \<not> ok response
                    then (case text_result response of
                            Inl m \<Rightarrow> (Inl m, c, [Fetch req])
                          | Inr errorText \<Rightarrow>
                              (Inl (msg_auth_failed (status response) errorText), c,
                               [Fetch req]))
                    else (case store_token e c (json_result response) of
                            (r, c') \<Rightarrow> (r, c', [Fetch req]))))"

section \<open>exports.handler (lines 73 to 178)\<close>

text \<open>
  The event as the platform delivers it: the method, the body (\<^verbatim>\<open>undefined\<close>,
  \<^verbatim>\<open>null\<close> or a string) and the \<^verbatim>\<open>host\<close> entry of the headers object.
\<close>

datatype event_body = Body_undefined | Body_null | Body_string string

record event =
  httpMethod :: string
  event_body :: event_body
  host :: "string option"

text \<open>The object the handler returns; \<open>headers = None\<close> when the property is absent.\<close>

record result =
  statusCode :: nat
  headers :: "(string \<times> string) list option"
  body :: body_text

text \<open>Lines 83 to 88.\<close>

definition cors_headers :: "(string \<times> string) list" where
  "cors_headers =
     [(''Content-Type'', ''application/json''),
      (''Access-Control-Allow-Origin'', ''*''),
      (''Access-Control-Allow-Methods'', ''POST, OPTIONS''),
      (''Access-Control-Allow-Headers'', ''Content-Type'')]"

text \<open>\<^verbatim>\<open>JSON.parse\<close> applies ToString to its argument first.\<close>

definition parse_body :: "env \<Rightarrow> event_body \<Rightarrow> json thrown" where
  "parse_body e b =
     JSON_parse e (case b of
                     Body_undefined \<Rightarrow> ''undefined''
                   | Body_null \<Rightarrow> ''null''
                   | Body_string s \<Rightarrow> s)"

text \<open>
  Line 101: the destructuring of the parsed body into \<^verbatim>\<open>amount\<close>,
  \<^verbatim>\<open>external_id\<close> and \<^verbatim>\<open>payer\<close>. Destructuring null throws a TypeError.
\<close>

definition destructure ::
  "env \<Rightarrow> event_body \<Rightarrow> (json option \<times> json option \<times> json option) thrown" where
  "destructure e b =
     (case parse_body e b of
        Inl m \<Rightarrow> Inl m
      | Inr v \<Rightarrow>
          (case member e v ''amount'' of
             Inl m \<Rightarrow> Inl m
           | Inr amount \<Rightarrow>
               (case member e v ''external_id'' of
                  Inl m \<Rightarrow> Inl m
                | Inr external_id \<Rightarrow>
                    (case member e v ''payer'' of
                       Inl m \<Rightarrow> Inl m
                     | Inr payer \<Rightarrow> Inr (amount, external_id, payer)))))"

text \<open>Lines 104 to 108.\<close>

definition incomplete_result :: result where
  "incomplete_result =
     \<lparr>statusCode = 400, headers = Some cors_headers,
      body = stringify_object [(''error'', Some (JStr msg_incomplete))]\<rparr>"

text \<open>The request of line 115.\<close>

definition deposit_request ::
  "env \<Rightarrow> event \<Rightarrow> json \<Rightarrow> json option \<Rightarrow> json option \<Rightarrow> json option \<Rightarrow> request" where
  "deposit_request e ev token amount external_id payer =
     \<lparr>req_url = API_URL @ ''/api/payments/deposit'',
      req_method = ''POST'',
      req_headers =
        [(''Authorization'', ''Bearer '' @ template e token),
         (''Content-Type'', ''application/json'')],
      req_body = stringify_object
        [(''amount'', amount),
         (''external_id'', external_id),
         (''clientCallbackUrl'',
            Some (JStr (''https://''
                        @ (case host ev of None \<Rightarrow> ''undefined'' | Some h \<Rightarrow> h)
                        @ ''/.netlify/functions/pix-webhook''))),
         (''payer'', payer)]\<rparr>"

text \<open>Line 146: \<^verbatim>\<open>depositData.error || depositData.message || "Erro desconhecido ..."\<close>.\<close>

definition error_of :: "env \<Rightarrow> json \<Rightarrow> json option thrown" where
  "error_of e depositData =
     (case member e depositData ''error'' of
        Inl m \<Rightarrow> Inl m
      | Inr a \<Rightarrow>
          if truthy_val a then Inr a
          else (case member e depositData ''message'' of
                  Inl m \<Rightarrow> Inl m
                | Inr b \<Rightarrow> Inr (or_else b (Some (JStr msg_unknown)))))"

text \<open>Lines 153 to 163: the four reads happen in the order of the literal.\<close>

definition success_result :: "env \<Rightarrow> json \<Rightarrow> result thrown" where
  "success_result e depositData =
     (case member e depositData ''transaction_id'' of
        Inl m \<Rightarrow> Inl m
      | Inr transaction_id \<Rightarrow>
     (case member e depositData ''qr_code_image'' of
        Inl m \<Rightarrow> Inl m
      | Inr qr_code_image \<Rightarrow>
     (case member e depositData ''pix_code'' of
        Inl m \<Rightarrow> Inl m
      | Inr pix_code \<Rightarrow>
     (case member e depositData ''status'' of
        Inl m \<Rightarrow> Inl m
      | Inr st \<Rightarrow>
          Inr \<lparr>statusCode = 200, headers = Some cors_headers,
               body = stringify_object
                 [(''transaction_id'', transaction_id),
                  (''qr_code_image'', qr_code_image),
                  (''pix_code'', pix_code),
                  (''status'', st)]\<rparr>))))"

text \<open>Lines 131 to 163: what the handler makes of the answer to the deposit call.\<close>

definition deposit_reply :: "env \<Rightarrow> fetch_response \<Rightarrow> result thrown" where
  "deposit_reply e depositResponse =
     (case json_result depositResponse of
        Inl parse_failure \<Rightarrow>
          (case text_result depositResponse of
             Inl m \<Rightarrow> Inl m
           | Inr errorText \<Rightarrow> Inl (msg_not_json (status depositResponse) errorText))
      | Inr depositData \<Rightarrow>
          if \<not> ok depositResponse
          then (case error_of e depositData of
                  Inl m \<Rightarrow> Inl m
                | Inr err \<Rightarrow>
                    Inr \<lparr>statusCode = status depositResponse, headers = Some cors_headers,
                         body = stringify_object
                           [(''error'', err), (''details'', Some depositData)]\<rparr>)
          else success_result e depositData)"

text \<open>Lines 100 to 163, the body of the \<^verbatim>\<open>try\<close>.\<close>

definition try_block :: "env \<Rightarrow> event \<Rightarrow> cache \<Rightarrow> result thrown \<times> cache \<times> effect list" where
  "try_block e ev c =
     (case destructure e (event_body ev) of
        Inl m \<Rightarrow> (Inl m, c, [])
      | Inr (amount, external_id, payer) \<Rightarrow>
          if \<not> truthy_val amount \<or> \<not> truthy_val external_id \<or> \<not> truthy_val payer
          then (Inr incomplete_result, c, [])
          else
            (case authenticate e c of
               (Inl m, c', fx) \<Rightarrow> (Inl m, c', fx)
             | (Inr token, c', fx) \<Rightarrow>
                 let req = deposit_request e ev token amount external_id payer
                 in (case fetch e req of
                       Inl m \<Rightarrow> (Inl m, c', fx @ [Fetch req])
                     | Inr depositResponse \<Rightarrow>
                         (deposit_reply e depositResponse, c', fx @ [Fetch req]))))"

text \<open>Lines 165 to 177, the \<^verbatim>\<open>catch\<close>.\<close>

definition internal_error_result :: "string \<Rightarrow> result" where
  "internal_error_result message =
     \<lparr>statusCode = 500, headers = Some cors_headers,
      body = stringify_object
        [(''error'', Some (JStr msg_internal)), (''details'', Some (JStr message))]\<rparr>"

text \<open>Lines 76 to 79.\<close>

definition method_result :: result where
  "method_result =
     \<lparr>statusCode = 405, headers = None,
      body = stringify_object [(''error'', Some (JStr msg_method))]\<rparr>"

text \<open>Lines 92 to 96.\<close>

definition preflight_result :: result where
  "preflight_result = \<lparr>statusCode = 200, headers = Some cors_headers, body = Empty_text\<rparr>"

definition handler :: "env \<Rightarrow> event \<Rightarrow> cache \<Rightarrow> result \<times> cache \<times> effect list" where
  "handler e ev c =
     (if httpMethod ev \<noteq> ''POST'' then (method_result, c, [])
      else if httpMethod ev = ''OPTIONS'' then (preflight_result, c, [])
      else (case try_block e ev c of
              (Inr r, c', fx) \<Rightarrow> (r, c', fx)
            | (Inl message, c', fx) \<Rightarrow>
                (internal_error_result message, c', fx @ [Console_error msg_log message])))"

text \<open>The network calls among the effects of a run.\<close>

fun fetches :: "effect list \<Rightarrow> request list" where
  "fetches [] = []"
| "fetches (Fetch r # fx) = r # fetches fx"
| "fetches (Console_error a b # fx) = fetches fx"

section \<open>Vocabulary of the properties\<close>

text \<open>
  The value of field \<open>k\<close> of a JSON value, \<open>None\<close> when the value has no such field
  (null, a number, a string, a boolean and an array have none of the fields read here).
\<close>

fun field :: "json \<Rightarrow> string \<Rightarrow> json option" where
  "field (JObj kvs) k = map_of kvs k"
| "field v k = None"

text \<open>A request body that passes the check of line 103 with these three values.\<close>

definition valid_input ::
  "env \<Rightarrow> event \<Rightarrow> json option \<Rightarrow> json option \<Rightarrow> json option \<Rightarrow> bool" where
  "valid_input e ev amount external_id payer =
     (destructure e (event_body ev) = Inr (amount, external_id, payer)
      \<and> truthy_val amount \<and> truthy_val external_id \<and> truthy_val payer)"

text \<open>Every token the cache holds is truthy: true at load time, kept by every run.\<close>

definition cache_ok :: "cache \<Rightarrow> bool" where
  "cache_ok c = (case cachedToken c of None \<Rightarrow> True | Some t \<Rightarrow> truthy t)"

definition four_fields :: "string list" where
  "four_fields = [''transaction_id'', ''qr_code_image'', ''pix_code'', ''status'']"

section \<open>A concrete world for the examples\<close>

definition dq :: "string \<Rightarrow> string" where
  "dq s = CHR 0x22 # s @ [CHR 0x22]"

definition order_text :: string where
  "order_text =
     ''{'' @ dq ''amount'' @ '':10,'' @ dq ''external_id'' @ '':'' @ dq ''order-1'' @ '',''
     @ dq ''payer'' @ '':{'' @ dq ''name'' @ '':'' @ dq ''Ana'' @ ''}}''"

definition order_json :: json where
  "order_json =
     JObj [(''amount'', JNum 10), (''external_id'', JStr ''order-1''),
           (''payer'', JObj [(''name'', JStr ''Ana'')])]"

definition no_payer_text :: string where
  "no_payer_text =
     ''{'' @ dq ''amount'' @ '':10,'' @ dq ''external_id'' @ '':'' @ dq ''order-1'' @ ''}''"

definition no_payer_json :: json where
  "no_payer_json = JObj [(''amount'', JNum 10), (''external_id'', JStr ''order-1'')]"

text \<open>A parser that knows four texts; every other text is refused here.\<close>

definition example_parse :: "string \<Rightarrow> json thrown" where
  "example_parse s =
     (if s = order_text then Inr order_json
      else if s = no_payer_text then Inr no_payer_json
      else if s = ''null'' then Inr JNull
      else Inl ''Unexpected token in JSON'')"

definition login_ok :: "fetch_response thrown" where
  "login_ok =
     Inr \<lparr>ok = True, status = 200,
          json_result = Inr (JObj [(''token'', JStr ''jwt-1'')]),
          text_result = Inl ''body used already''\<rparr>"

definition example_env :: "fetch_response thrown \<Rightarrow> fetch_response thrown \<Rightarrow> env" where
  "example_env login deposit =
     \<lparr>CLIENT_ID = Some ''client-1'', CLIENT_SECRET = Some ''secret-1'',
      JSON_parse = example_parse,
      fetch = (\<lambda>r. if req_url r = API_URL @ ''/api/auth/login'' then login else deposit),
      clock_check = 1000, clock_store = 2000,
      null_message = (\<lambda>k. ''Cannot read properties of null (reading '' @ k @ '')''),
      ToString = (\<lambda>v. ''[object Object]'')\<rparr>"

definition deposit_ok :: "fetch_response thrown" where
  "deposit_ok =
     Inr \<lparr>ok = True, status = 200,
          json_result = Inr (JObj [(''transaction_id'', JStr ''tx-1''),
                                  (''qr_code_image'', JStr ''image-1''),
                                  (''pix_code'', JStr ''pix-1''),
                                  (''status'', JStr ''pending''),
                                  (''fee'', JNum 2)]),
          text_result = Inl ''body used already''\<rparr>"

definition order_event :: event where
  "order_event =
     \<lparr>httpMethod = ''POST'', event_body = Body_string order_text,
      host = Some ''shop.netlify.app''\<rparr>"

definition no_credentials_env :: env where
  "no_credentials_env = (example_env login_ok deposit_ok)\<lparr>CLIENT_ID := None\<rparr>"

definition warm_cache :: cache where
  "warm_cache = \<lparr>cachedToken = Some (JStr ''jwt-0''), tokenExpiry = Some 1001\<rparr>"

definition stale_cache :: cache where
  "stale_cache = \<lparr>cachedToken = Some (JStr ''jwt-0''), tokenExpiry = Some 1000\<rparr>"

definition login_access_token :: "fetch_response thrown" where
  "login_access_token =
     Inr \<lparr>ok = True, status = 200,
          json_result = Inr (JObj [(''token'', JStr []), (''access_token'', JStr ''jwt-2'')]),
          text_result = Inl ''body used already''\<rparr>"

definition deposit_402 :: "fetch_response thrown" where
  "deposit_402 =
     Inr \<lparr>ok = False, status = 402,
          json_result = Inr (JObj [(''error'', JStr ''insufficient_funds'')]),
          text_result = Inl ''body used already''\<rparr>"

definition deposit_402_null :: "fetch_response thrown" where
  "deposit_402_null =
     Inr \<lparr>ok = False, status = 402, json_result = Inr JNull,
          text_result = Inl ''body used already''\<rparr>"

definition order_deposit_request :: "env \<Rightarrow> request" where
  "order_deposit_request e =
     deposit_request e order_event (JStr ''jwt-1'')
       (Some (JNum 10)) (Some (JStr ''order-1'')) (Some (JObj [(''name'', JStr ''Ana'')]))"

definition fresh_cache :: cache where
  "fresh_cache = \<lparr>cachedToken = Some (JStr ''jwt-1''), tokenExpiry = Some 3302000\<rparr>"

definition deposit_partial :: "fetch_response thrown" where
  "deposit_partial =
     Inr \<lparr>ok = True, status = 200,
          json_result = Inr (JObj [(''transaction_id'', JStr ''tx-1''), (''fee'', JNum 2)]),
          text_result = Inl ''body used already''\<rparr>"

definition deposit_null :: "fetch_response thrown" where
  "deposit_null =
     Inr \<lparr>ok = True, status = 200, json_result = Inr JNull,
          text_result = Inl ''body used already''\<rparr>"

section \<open>Properties\<close>

lemma member_field: "v \<noteq> JNull \<Longrightarrow> member e v k = Inr (field v k)"
  by (cases v) simp_all

lemma handler_other_method:
  "httpMethod ev \<noteq> ''POST'' \<Longrightarrow> handler e ev c = (method_result, c, [])"
  by (simp add: handler_def)

lemma handler_post:
  "httpMethod ev = ''POST'' \<Longrightarrow>
   handler e ev c =
     (case try_block e ev c of
        (Inr r, c', fx) \<Rightarrow> (r, c', fx)
      | (Inl m, c', fx) \<Rightarrow> (internal_error_result m, c', fx @ [Console_error msg_log m]))"
  by (simp add: handler_def)

text \<open>
  C3. A request whose method is neither POST nor OPTIONS is answered 405 with a JSON body that
  has an \<open>error\<close> field; the run has no effect at all (no login, no deposit call) and
  leaves the cache as it was.
\<close>

theorem method_not_allowed:
  assumes "httpMethod ev \<noteq> ''POST''" and "httpMethod ev \<noteq> ''OPTIONS''"
  shows "handler e ev c =
     (\<lparr>statusCode = 405, headers = None,
       body = JSON_stringify (JObj [(''error'', JStr msg_method)])\<rparr>, c, [])"
  using assms(1) by (simp add: handler_other_method method_result_def stringify_object_def)

theorem method_not_allowed_witness:
  "handler (example_env login_ok deposit_ok) (order_event\<lparr>httpMethod := ''GET''\<rparr>) initial_cache =
     (\<lparr>statusCode = 405, headers = None,
       body = JSON_stringify (JObj [(''error'', JStr msg_method)])\<rparr>, initial_cache, [])"
  using method_not_allowed [of "order_event\<lparr>httpMethod := ''GET''\<rparr>" "example_env login_ok deposit_ok" initial_cache]
  by (simp add: order_event_def)

text \<open>
  C1. The check of line 75 comes before the pre-flight branch of line 91, so an OPTIONS request
  is answered by the 405 of line 76, without headers, and never reaches the 200 of line 92.
\<close>

theorem options_answered_405:
  "handler (example_env login_ok deposit_ok) (order_event\<lparr>httpMethod := ''OPTIONS''\<rparr>) initial_cache =
     (\<lparr>statusCode = 405, headers = None,
       body = JSON_stringify (JObj [(''error'', JStr msg_method)])\<rparr>, initial_cache, [])"
  by (simp add: handler_def order_event_def method_result_def stringify_object_def)

lemma success_result_not_null:
  "d \<noteq> JNull \<Longrightarrow>
   success_result e d =
     Inr \<lparr>statusCode = 200, headers = Some cors_headers,
          body = stringify_object
            [(''transaction_id'', field d ''transaction_id''),
             (''qr_code_image'', field d ''qr_code_image''),
             (''pix_code'', field d ''pix_code''),
             (''status'', field d ''status'')]\<rparr>"
  by (simp add: success_result_def member_field)

lemma success_result_null:
  "success_result e JNull = Inl (null_message e ''transaction_id'')"
  by (simp add: success_result_def)

lemma error_of_not_null:
  "d \<noteq> JNull \<Longrightarrow>
   error_of e d =
     Inr (or_else (field d ''error'') (or_else (field d ''message'') (Some (JStr msg_unknown))))"
  by (simp add: error_of_def member_field or_else_def)

lemma error_of_null: "error_of e JNull = Inl (null_message e ''error'')"
  by (simp add: error_of_def)

lemma success_result_headers:
  "success_result e d = Inr r \<Longrightarrow> headers r = Some cors_headers"
  by (cases "d = JNull") (auto simp: success_result_null success_result_not_null)

lemma deposit_reply_headers:
  "deposit_reply e resp = Inr r \<Longrightarrow> headers r = Some cors_headers"
  by (auto simp: deposit_reply_def success_result_headers split: sum.splits if_splits)

lemma try_block_headers:
  "try_block e ev c = (Inr r, c', fx) \<Longrightarrow> headers r = Some cors_headers"
  by (auto simp: try_block_def Let_def incomplete_result_def deposit_reply_headers
           split: sum.splits if_splits prod.splits)

text \<open>
  C2, as amended. Whatever a POST request leads to (the 400 of the validation, the answer of
  the provider passed on, the 200 of a deposit or the 500 of the catch), the result carries the
  fixed header set of lines 83 to 88: Content-Type, Access-Control-Allow-Origin,
  Access-Control-Allow-Methods and Access-Control-Allow-Headers. The 405 given to a method
  other than POST and OPTIONS has no \<open>headers\<close> property at all.
\<close>

theorem post_has_cors:
  "(httpMethod ev = ''POST'' \<longrightarrow> headers (fst (handler e ev c)) = Some cors_headers)
   \<and> (httpMethod ev \<noteq> ''POST'' \<and> httpMethod ev \<noteq> ''OPTIONS''
        \<longrightarrow> headers (fst (handler e ev c)) = None)"
proof (intro conjI impI)
  assume post: "httpMethod ev = ''POST''"
  obtain r c' fx where t: "try_block e ev c = (r, c', fx)"
    by (cases "try_block e ev c") auto
  show "headers (fst (handler e ev c)) = Some cors_headers"
  proof (cases r)
    case (Inl m)
    with t post show ?thesis
      by (simp add: handler_post internal_error_result_def)
  next
    case (Inr res)
    with t post show ?thesis
      by (simp add: handler_post try_block_headers)
  qed
next
  assume "httpMethod ev \<noteq> ''POST'' \<and> httpMethod ev \<noteq> ''OPTIONS''"
  then show "headers (fst (handler e ev c)) = None"
    by (simp add: handler_other_method method_result_def)
qed

theorem post_has_cors_witness:
  "headers (fst (handler (example_env login_ok deposit_ok) order_event initial_cache))
     = Some cors_headers
   \<and> headers (fst (handler (example_env login_ok deposit_ok)
                       (order_event\<lparr>httpMethod := ''GET''\<rparr>) initial_cache)) = None"
  using post_has_cors [of order_event "example_env login_ok deposit_ok" initial_cache]
    post_has_cors [of "order_event\<lparr>httpMethod := ''GET''\<rparr>" "example_env login_ok deposit_ok"
      initial_cache]
  by (simp add: order_event_def)

text \<open>
  C2 as stated fails: the 405 of lines 76 to 79 is built before the header set exists and has
  no headers; a GET request shows it.
\<close>

theorem cors_counterexample:
  "headers (fst (handler (example_env login_ok deposit_ok)
                   (order_event\<lparr>httpMethod := ''GET''\<rparr>) initial_cache)) = None"
  by (simp add: handler_def order_event_def method_result_def)

lemma destructure_parse_error:
  "parse_body e b = Inl m \<Longrightarrow> destructure e b = Inl m"
  by (simp add: destructure_def)

lemma destructure_null:
  "parse_body e b = Inr JNull \<Longrightarrow> destructure e b = Inl (null_message e ''amount'')"
  by (simp add: destructure_def)

lemma destructure_value:
  "parse_body e b = Inr v \<Longrightarrow> v \<noteq> JNull \<Longrightarrow>
   destructure e b = Inr (field v ''amount'', field v ''external_id'', field v ''payer'')"
  by (simp add: destructure_def member_field)

lemma try_block_raises:
  "httpMethod ev = ''POST'' \<Longrightarrow> fst (try_block e ev c) = Inl m \<Longrightarrow>
   fst (handler e ev c) = internal_error_result m"
  by (cases "try_block e ev c") (simp add: handler_post)

lemma try_block_returns:
  "httpMethod ev = ''POST'' \<Longrightarrow> try_block e ev c = (Inr r, c', fx) \<Longrightarrow>
   handler e ev c = (r, c', fx)"
  by (simp add: handler_post)

lemma try_block_incomplete:
  assumes "parse_body e (event_body ev) = Inr v" and "v \<noteq> JNull"
    and "\<not> truthy_val (field v ''amount'') \<or> \<not> truthy_val (field v ''external_id'')
         \<or> \<not> truthy_val (field v ''payer'')"
  shows "try_block e ev c = (Inr incomplete_result, c, [])"
  using assms by (auto simp: try_block_def destructure_value)

text \<open>
  C4, as amended. A POST request whose body parses to a JSON value other than null in which
  \<open>amount\<close>, \<open>external_id\<close> or \<open>payer\<close> is missing (a missing field
  reads as \<^verbatim>\<open>undefined\<close>) or holds a falsy value is answered 400 with a JSON
  body that has an \<open>error\<close> field; the run has no effect (no login, no deposit call)
  and leaves the cache as it was.
\<close>

theorem incomplete_400:
  assumes "httpMethod ev = ''POST''"
    and "parse_body e (event_body ev) = Inr v" and "v \<noteq> JNull"
    and "\<not> truthy_val (field v ''amount'') \<or> \<not> truthy_val (field v ''external_id'')
         \<or> \<not> truthy_val (field v ''payer'')"
  shows "handler e ev c =
     (\<lparr>statusCode = 400, headers = Some cors_headers,
       body = JSON_stringify (JObj [(''error'', JStr msg_incomplete)])\<rparr>, c, [])"
  using try_block_returns [OF assms(1) try_block_incomplete [OF assms(2-4)], of c]
  by (simp add: incomplete_result_def stringify_object_def)

theorem incomplete_400_witness:
  "handler (example_env login_ok deposit_ok)
     (order_event\<lparr>event_body := Body_string no_payer_text\<rparr>) initial_cache =
     (\<lparr>statusCode = 400, headers = Some cors_headers,
       body = JSON_stringify (JObj [(''error'', JStr msg_incomplete)])\<rparr>, initial_cache, [])"
  using incomplete_400 [of "order_event\<lparr>event_body := Body_string no_payer_text\<rparr>"
      "example_env login_ok deposit_ok" no_payer_json initial_cache]
  by (simp add: order_event_def parse_body_def example_env_def example_parse_def
      no_payer_text_def order_text_def no_payer_json_def truthy_val_def dq_def)

text \<open>
  C4 as stated fails when the body is the JSON text \<^verbatim>\<open>null\<close>: the parsed
  body has none of the three fields, yet destructuring null throws, and the catch answers 500.
\<close>

theorem null_body_counterexample:
  "parse_body (example_env login_ok deposit_ok) (Body_string ''null'') = Inr JNull
   \<and> field JNull ''amount'' = None
   \<and> handler (example_env login_ok deposit_ok)
        (order_event\<lparr>event_body := Body_string ''null''\<rparr>) initial_cache =
      (\<lparr>statusCode = 500, headers = Some cors_headers,
        body = JSON_stringify (JObj
          [(''error'', JStr msg_internal),
           (''details'', JStr ''Cannot read properties of null (reading amount)'')])\<rparr>,
       initial_cache,
       [Console_error msg_log ''Cannot read properties of null (reading amount)''])"
  by (simp add: handler_def try_block_def destructure_def parse_body_def order_event_def
      example_env_def example_parse_def order_text_def no_payer_text_def dq_def
      internal_error_result_def stringify_object_def)

lemma error_of_defined:
  "error_of e d = Inr err \<Longrightarrow> \<exists>v. err = Some v"
  by (cases "d = JNull")
     (auto simp: error_of_null error_of_not_null or_else_def truthy_val_def
           split: option.splits if_splits)

lemma deposit_reply_not_incomplete:
  "deposit_reply e resp = Inr r \<Longrightarrow> r \<noteq> incomplete_result"
proof
  assume a: "deposit_reply e resp = Inr r" and b: "r = incomplete_result"
  from a obtain d where d: "json_result resp = Inr d"
    by (auto simp: deposit_reply_def split: sum.splits)
  show False
  proof (cases "ok resp")
    case True
    with a d have "success_result e d = Inr r" by (simp add: deposit_reply_def)
    then have "statusCode r = 200"
      by (cases "d = JNull") (auto simp: success_result_null success_result_not_null)
    with b show False by (simp add: incomplete_result_def)
  next
    case False
    with a d obtain err where err: "error_of e d = Inr err"
      and r: "r = \<lparr>statusCode = status resp, headers = Some cors_headers,
                    body = stringify_object [(''error'', err), (''details'', Some d)]\<rparr>"
      by (auto simp: deposit_reply_def split: sum.splits)
    from error_of_defined [OF err] obtain v where "err = Some v" ..
    with r b show False
      by (simp add: incomplete_result_def stringify_object_def)
  qed
qed

lemma try_block_incomplete_only:
  assumes "try_block e ev c = (Inr incomplete_result, c', fx)"
  shows "\<exists>v. parse_body e (event_body ev) = Inr v \<and> v \<noteq> JNull
           \<and> (\<not> truthy_val (field v ''amount'') \<or> \<not> truthy_val (field v ''external_id'')
                \<or> \<not> truthy_val (field v ''payer''))"
proof (cases "parse_body e (event_body ev)")
  case (Inl m)
  with assms show ?thesis by (simp add: try_block_def destructure_parse_error)
next
  case (Inr v)
  show ?thesis
  proof (cases "v = JNull")
    case True
    with Inr assms show ?thesis by (simp add: try_block_def destructure_null)
  next
    case False
    show ?thesis
    proof (rule ccontr)
      assume "\<not> ?thesis"
      with Inr False have t: "truthy_val (field v ''amount'')"
        "truthy_val (field v ''external_id'')" "truthy_val (field v ''payer'')"
        by auto
      from assms Inr False t show False
        by (auto simp: try_block_def destructure_value Let_def
                 dest: deposit_reply_not_incomplete
                 split: sum.splits prod.splits)
    qed
  qed
qed

lemma try_block_valid:
  assumes "valid_input e ev amount external_id payer"
  shows "try_block e ev c =
     (case authenticate e c of
        (Inl m, c', fx) \<Rightarrow> (Inl m, c', fx)
      | (Inr token, c', fx) \<Rightarrow>
          (case fetch e (deposit_request e ev token amount external_id payer) of
             Inl m \<Rightarrow> Inl m
           | Inr depositResponse \<Rightarrow> deposit_reply e depositResponse,
           c', fx @ [Fetch (deposit_request e ev token amount external_id payer)]))"
  using assms
  by (auto simp: valid_input_def try_block_def Let_def split: sum.splits prod.splits)

lemma authenticate_no_credentials:
  "cache_hit e c = None \<Longrightarrow> \<not> (truthy_str (CLIENT_ID e) \<and> truthy_str (CLIENT_SECRET e)) \<Longrightarrow>
   authenticate e c = (Inl msg_credentials, c, [])"
  by (auto simp: authenticate_def)

lemma authenticate_login:
  assumes "cache_hit e c = None" and "truthy_str (CLIENT_ID e)" and "truthy_str (CLIENT_SECRET e)"
  shows "authenticate e c =
     (case (case fetch e (login_request (CLIENT_ID e) (CLIENT_SECRET e)) of
              Inl m \<Rightarrow> (Inl m, c)
            | Inr response \<Rightarrow>
                if \<not> ok response
                then (case text_result response of
                        Inl m \<Rightarrow> (Inl m, c)
                      | Inr errorText \<Rightarrow>
                          (Inl (msg_auth_failed (status response) errorText), c))
                else store_token e c (json_result response)) of
        (r, c') \<Rightarrow> (r, c', [Fetch (login_request (CLIENT_ID e) (CLIENT_SECRET e))]))"
  using assms
  by (auto simp: authenticate_def Let_def split: sum.splits prod.splits)

lemma handler_body_is_json: "\<exists>j. body (fst (handler e ev c)) = JSON_stringify j"
proof (cases "httpMethod ev = ''POST''")
  case False
  then show ?thesis
    by (simp add: handler_other_method method_result_def stringify_object_def)
next
  case True
  obtain r c' fx where t: "try_block e ev c = (r, c', fx)"
    by (cases "try_block e ev c") auto
  show ?thesis
  proof (cases r)
    case (Inl m)
    with t True show ?thesis
      by (simp add: handler_post internal_error_result_def stringify_object_def)
  next
    case (Inr res)
    have "\<exists>j. body res = JSON_stringify j"
      using t Inr
      by (auto simp: try_block_def Let_def incomplete_result_def deposit_reply_def
                     success_result_def stringify_object_def
               split: sum.splits if_splits prod.splits)
    with t True Inr show ?thesis by (simp add: handler_post)
  qed
qed

text \<open>
  C9. For a POST request every error thrown inside the \<^verbatim>\<open>try\<close> ends in the one
  \<^verbatim>\<open>catch\<close>, whose result is 500 with a JSON body of two fields, the generic
  \<open>error\<close> text and \<open>details\<close> holding the message of the error. The conjuncts
  name the ways to get there: any throw of the block; a body that does not parse; a failed
  authentication, of which missing credentials and a network failure of the login are two; a
  network failure of the deposit call; a deposit answer that is not JSON. The last conjunct is
  that the body of every result is the text of a JSON value.
\<close>

theorem errors_become_500:
  assumes post: "httpMethod ev = ''POST''"
  shows
    "(\<forall>m. fst (try_block e ev c) = Inl m \<longrightarrow> fst (handler e ev c) = internal_error_result m)
     \<and> (\<forall>m. parse_body e (event_body ev) = Inl m \<longrightarrow>
            fst (handler e ev c) = internal_error_result m)
     \<and> (\<forall>a x p m. valid_input e ev a x p \<and> fst (authenticate e c) = Inl m \<longrightarrow>
            fst (handler e ev c) = internal_error_result m)
     \<and> (cache_hit e c = None \<and> \<not> (truthy_str (CLIENT_ID e) \<and> truthy_str (CLIENT_SECRET e)) \<longrightarrow>
            fst (authenticate e c) = Inl msg_credentials)
     \<and> (\<forall>m. cache_hit e c = None \<and> truthy_str (CLIENT_ID e) \<and> truthy_str (CLIENT_SECRET e)
            \<and> fetch e (login_request (CLIENT_ID e) (CLIENT_SECRET e)) = Inl m \<longrightarrow>
            fst (authenticate e c) = Inl m)
     \<and> (\<forall>a x p token m. valid_input e ev a x p \<and> fst (authenticate e c) = Inr token
            \<and> fetch e (deposit_request e ev token a x p) = Inl m \<longrightarrow>
            fst (handler e ev c) = internal_error_result m)
     \<and> (\<forall>a x p token r j. valid_input e ev a x p \<and> fst (authenticate e c) = Inr token
            \<and> fetch e (deposit_request e ev token a x p) = Inr r \<and> json_result r = Inl j \<longrightarrow>
            fst (handler e ev c) =
              internal_error_result
                (case text_result r of
                   Inl m \<Rightarrow> m
                 | Inr errorText \<Rightarrow> msg_not_json (status r) errorText))
     \<and> (\<forall>m. internal_error_result m =
            \<lparr>statusCode = 500, headers = Some cors_headers,
             body = JSON_stringify (JObj [(''error'', JStr msg_internal),
                                        (''details'', JStr m)])\<rparr>)
     \<and> (\<exists>j. body (fst (handler e ev c)) = JSON_stringify j)"
proof (intro conjI allI impI)
  fix m assume "fst (try_block e ev c) = Inl m"
  then show "fst (handler e ev c) = internal_error_result m"
    by (rule try_block_raises [OF post])
next
  fix m assume "parse_body e (event_body ev) = Inl m"
  then have "fst (try_block e ev c) = Inl m"
    by (simp add: try_block_def destructure_parse_error)
  then show "fst (handler e ev c) = internal_error_result m"
    by (rule try_block_raises [OF post])
next
  fix a x p m
  assume h: "valid_input e ev a x p \<and> fst (authenticate e c) = Inl m"
  then have "fst (try_block e ev c) = Inl m"
    using try_block_valid [of e ev a x p c] by (cases "authenticate e c") auto
  then show "fst (handler e ev c) = internal_error_result m"
    by (rule try_block_raises [OF post])
next
  assume "cache_hit e c = None \<and> \<not> (truthy_str (CLIENT_ID e) \<and> truthy_str (CLIENT_SECRET e))"
  then show "fst (authenticate e c) = Inl msg_credentials"
    by (simp add: authenticate_no_credentials)
next
  fix m
  assume "cache_hit e c = None \<and> truthy_str (CLIENT_ID e) \<and> truthy_str (CLIENT_SECRET e)
            \<and> fetch e (login_request (CLIENT_ID e) (CLIENT_SECRET e)) = Inl m"
  then show "fst (authenticate e c) = Inl m"
    by (simp add: authenticate_login)
next
  fix a x p token m
  assume h: "valid_input e ev a x p \<and> fst (authenticate e c) = Inr token
            \<and> fetch e (deposit_request e ev token a x p) = Inl m"
  then have "fst (try_block e ev c) = Inl m"
    using try_block_valid [of e ev a x p c] by (cases "authenticate e c") auto
  then show "fst (handler e ev c) = internal_error_result m"
    by (rule try_block_raises [OF post])
next
  fix a x p token r j
  assume h: "valid_input e ev a x p \<and> fst (authenticate e c) = Inr token
            \<and> fetch e (deposit_request e ev token a x p) = Inr r \<and> json_result r = Inl j"
  then have "fst (try_block e ev c) =
      Inl (case text_result r of Inl m \<Rightarrow> m
           | Inr errorText \<Rightarrow> msg_not_json (status r) errorText)"
    using try_block_valid [of e ev a x p c]
    by (cases "authenticate e c") (auto simp: deposit_reply_def split: sum.splits)
  then show "fst (handler e ev c) =
      internal_error_result (case text_result r of Inl m \<Rightarrow> m
           | Inr errorText \<Rightarrow> msg_not_json (status r) errorText)"
    by (rule try_block_raises [OF post])
next
  fix m
  show "internal_error_result m =
            \<lparr>statusCode = 500, headers = Some cors_headers,
             body = JSON_stringify (JObj [(''error'', JStr msg_internal),
                                        (''details'', JStr m)])\<rparr>"
    by (simp add: internal_error_result_def stringify_object_def)
next
  show "\<exists>j. body (fst (handler e ev c)) = JSON_stringify j"
    by (rule handler_body_is_json)
qed

lemma order_valid:
  "valid_input (example_env l d) order_event
     (Some (JNum 10)) (Some (JStr ''order-1'')) (Some (JObj [(''name'', JStr ''Ana'')]))"
  by (simp add: valid_input_def destructure_def parse_body_def order_event_def
      example_env_def example_parse_def order_json_def truthy_val_def)

theorem errors_become_500_witness:
  "fst (handler no_credentials_env order_event initial_cache) =
     \<lparr>statusCode = 500, headers = Some cors_headers,
      body = JSON_stringify (JObj [(''error'', JStr msg_internal),
                                 (''details'', JStr msg_credentials)])\<rparr>"
proof -
  have post: "httpMethod order_event = ''POST''" by (simp add: order_event_def)
  note t = errors_become_500 [OF post, of no_credentials_env initial_cache]
  have v: "valid_input no_credentials_env order_event
     (Some (JNum 10)) (Some (JStr ''order-1'')) (Some (JObj [(''name'', JStr ''Ana'')]))"
    by (simp add: valid_input_def destructure_def parse_body_def order_event_def
      no_credentials_env_def example_env_def example_parse_def order_json_def truthy_val_def)
  have miss: "cache_hit no_credentials_env initial_cache = None"
    by (simp add: cache_hit_def initial_cache_def)
  have "\<not> (truthy_str (CLIENT_ID no_credentials_env)
            \<and> truthy_str (CLIENT_SECRET no_credentials_env))"
    by (simp add: no_credentials_env_def truthy_str_def)
  with miss t have a: "fst (authenticate no_credentials_env initial_cache) = Inl msg_credentials"
    by blast
  from t v a have "fst (handler no_credentials_env order_event initial_cache)
      = internal_error_result msg_credentials" by blast
  moreover from t have "internal_error_result msg_credentials =
            \<lparr>statusCode = 500, headers = Some cors_headers,
             body = JSON_stringify (JObj [(''error'', JStr msg_internal),
                                        (''details'', JStr msg_credentials)])\<rparr>" by blast
  ultimately show ?thesis by simp
qed

text \<open>
  C10. For a POST request: a body that is not valid JSON is answered 500 by the catch, with
  the parser's message under \<open>details\<close>; an absent body (\<^verbatim>\<open>null\<close> or
  \<^verbatim>\<open>undefined\<close>) is answered 500 as well; and the 400 of the validation is the
  result exactly when the body parses to a JSON value other than null in which one of the three
  fields is missing or falsy. The parser is assumed to read the text \<^verbatim>\<open>null\<close> as
  null and to refuse the text \<^verbatim>\<open>undefined\<close>, as \<^verbatim>\<open>JSON.parse\<close> does.
\<close>

theorem bad_body_500:
  assumes post: "httpMethod ev = ''POST''"
    and parser: "JSON_parse e ''null'' = Inr JNull" "JSON_parse e ''undefined'' = Inl u"
  shows
    "(\<forall>m. parse_body e (event_body ev) = Inl m \<longrightarrow>
         fst (handler e ev c) =
           \<lparr>statusCode = 500, headers = Some cors_headers,
            body = JSON_stringify (JObj [(''error'', JStr msg_internal),
                                       (''details'', JStr m)])\<rparr>)
     \<and> (event_body ev = Body_null \<or> event_body ev = Body_undefined \<longrightarrow>
         statusCode (fst (handler e ev c)) = 500)
     \<and> (fst (handler e ev c) =
           \<lparr>statusCode = 400, headers = Some cors_headers,
            body = JSON_stringify (JObj [(''error'', JStr msg_incomplete)])\<rparr>
         \<longleftrightarrow> (\<exists>v. parse_body e (event_body ev) = Inr v \<and> v \<noteq> JNull
                \<and> (\<not> truthy_val (field v ''amount'') \<or> \<not> truthy_val (field v ''external_id'')
                     \<or> \<not> truthy_val (field v ''payer''))))"
proof (intro conjI allI impI)
  fix m assume "parse_body e (event_body ev) = Inl m"
  then have "fst (try_block e ev c) = Inl m"
    by (simp add: try_block_def destructure_parse_error)
  then have "fst (handler e ev c) = internal_error_result m"
    by (rule try_block_raises [OF post])
  then show "fst (handler e ev c) =
           \<lparr>statusCode = 500, headers = Some cors_headers,
            body = JSON_stringify (JObj [(''error'', JStr msg_internal),
                                       (''details'', JStr m)])\<rparr>"
    by (simp add: internal_error_result_def stringify_object_def)
next
  assume "event_body ev = Body_null \<or> event_body ev = Body_undefined"
  then have "\<exists>m. fst (try_block e ev c) = Inl m"
    using parser
    by (auto simp: try_block_def destructure_def parse_body_def)
  then obtain m where "fst (try_block e ev c) = Inl m" ..
  then have "fst (handler e ev c) = internal_error_result m"
    by (rule try_block_raises [OF post])
  then show "statusCode (fst (handler e ev c)) = 500"
    by (simp add: internal_error_result_def)
next
  have ir: "incomplete_result =
      \<lparr>statusCode = 400, headers = Some cors_headers,
       body = JSON_stringify (JObj [(''error'', JStr msg_incomplete)])\<rparr>"
    by (simp add: incomplete_result_def stringify_object_def)
  show "fst (handler e ev c) =
           \<lparr>statusCode = 400, headers = Some cors_headers,
            body = JSON_stringify (JObj [(''error'', JStr msg_incomplete)])\<rparr>
         \<longleftrightarrow> (\<exists>v. parse_body e (event_body ev) = Inr v \<and> v \<noteq> JNull
                \<and> (\<not> truthy_val (field v ''amount'') \<or> \<not> truthy_val (field v ''external_id'')
                     \<or> \<not> truthy_val (field v ''payer'')))"
    (is "?L \<longleftrightarrow> ?R")
  proof
    assume l: ?L
    obtain r c' fx where t: "try_block e ev c = (r, c', fx)"
      by (cases "try_block e ev c") auto
    show ?R
    proof (cases r)
      case (Inl m)
      with t post l show ?thesis
        by (simp add: handler_post internal_error_result_def)
    next
      case (Inr res)
      with t post l have "res = incomplete_result"
        by (simp add: handler_post ir)
      with t Inr have "try_block e ev c = (Inr incomplete_result, c', fx)" by simp
      then show ?thesis by (rule try_block_incomplete_only)
    qed
  next
    assume ?R
    then obtain v where v: "parse_body e (event_body ev) = Inr v" "v \<noteq> JNull"
      "\<not> truthy_val (field v ''amount'') \<or> \<not> truthy_val (field v ''external_id'')
                     \<or> \<not> truthy_val (field v ''payer'')"
      by blast
    from try_block_returns [OF post try_block_incomplete [OF v], of c]
    show ?L by (simp add: ir)
  qed
qed

theorem bad_body_500_witness:
  "statusCode (fst (handler (example_env login_ok deposit_ok)
                      (order_event\<lparr>event_body := Body_string ''{amount''\<rparr>) initial_cache)) = 500
   \<and> statusCode (fst (handler (example_env login_ok deposit_ok)
                      (order_event\<lparr>event_body := Body_null\<rparr>) initial_cache)) = 500
   \<and> fst (handler (example_env login_ok deposit_ok)
                      (order_event\<lparr>event_body := Body_string no_payer_text\<rparr>) initial_cache) =
        \<lparr>statusCode = 400, headers = Some cors_headers,
         body = JSON_stringify (JObj [(''error'', JStr msg_incomplete)])\<rparr>"
proof -
  let ?e = "example_env login_ok deposit_ok"
  have p: "JSON_parse ?e ''null'' = Inr JNull"
    "JSON_parse ?e ''undefined'' = Inl ''Unexpected token in JSON''"
    by (simp_all add: example_env_def example_parse_def order_text_def no_payer_text_def dq_def)
  have post: "\<And>b. httpMethod (order_event\<lparr>event_body := b\<rparr>) = ''POST''"
    by (simp add: order_event_def)
  have 1: "parse_body ?e (event_body (order_event\<lparr>event_body := Body_string ''{amount''\<rparr>))
      = Inl ''Unexpected token in JSON''"
    by (simp add: parse_body_def example_env_def example_parse_def order_text_def
        no_payer_text_def dq_def)
  have 3: "parse_body ?e (event_body (order_event\<lparr>event_body := Body_string no_payer_text\<rparr>))
      = Inr no_payer_json \<and> no_payer_json \<noteq> JNull \<and> \<not> truthy_val (field no_payer_json ''payer'')"
    by (simp add: parse_body_def example_env_def example_parse_def order_text_def
        no_payer_text_def dq_def no_payer_json_def truthy_val_def)
  from bad_body_500 [OF post p, of "Body_string ''{amount''" initial_cache] 1
  have "fst (handler ?e (order_event\<lparr>event_body := Body_string ''{amount''\<rparr>) initial_cache)
      = \<lparr>statusCode = 500, headers = Some cors_headers,
            body = JSON_stringify (JObj [(''error'', JStr msg_internal),
                                       (''details'', JStr ''Unexpected token in JSON'')])\<rparr>"
    by blast
  then have a: "statusCode (fst (handler ?e
                      (order_event\<lparr>event_body := Body_string ''{amount''\<rparr>) initial_cache)) = 500"
    by simp
  from bad_body_500 [OF post p, of Body_null initial_cache]
  have b: "statusCode (fst (handler ?e (order_event\<lparr>event_body := Body_null\<rparr>) initial_cache))
      = 500"
    by simp
  from bad_body_500 [OF post p, of "Body_string no_payer_text" initial_cache] 3
  have c: "fst (handler ?e (order_event\<lparr>event_body := Body_string no_payer_text\<rparr>) initial_cache)
      = \<lparr>statusCode = 400, headers = Some cors_headers,
         body = JSON_stringify (JObj [(''error'', JStr msg_incomplete)])\<rparr>"
    by blast
  from a b c show ?thesis by simp
qed

lemma authenticate_hit:
  "cache_hit e c = Some t \<Longrightarrow> authenticate e c = (Inr t, c, [])"
  by (simp add: authenticate_def)

lemma authenticate_miss_effects:
  "cache_hit e c = None \<Longrightarrow> authenticate e c = (Inr t, c', fx) \<Longrightarrow>
   fx = [Fetch (login_request (CLIENT_ID e) (CLIENT_SECRET e))]"
  by (auto simp: authenticate_def Let_def split: sum.splits if_splits prod.splits)

lemma store_token_stores:
  "store_token e c parsed = (Inr t, c') \<Longrightarrow>
   truthy t \<and> c' = \<lparr>cachedToken = Some t, tokenExpiry = Some (clock_store e + 55 * 60 * 1000)\<rparr>"
  by (auto simp: store_token_def split: sum.splits option.splits if_splits)

lemma store_token_fails:
  "store_token e c parsed = (Inl m, c') \<Longrightarrow> c' = c"
  by (auto simp: store_token_def split: sum.splits option.splits if_splits)

lemma authenticate_miss_stores:
  "cache_hit e c = None \<Longrightarrow> authenticate e c = (Inr t, c', fx) \<Longrightarrow>
   truthy t \<and> c' = \<lparr>cachedToken = Some t, tokenExpiry = Some (clock_store e + 55 * 60 * 1000)\<rparr>"
  by (auto simp: authenticate_def Let_def dest: store_token_stores
           split: sum.splits if_splits prod.splits)

lemma authenticate_fails_keeps_cache:
  "authenticate e c = (Inl m, c', fx) \<Longrightarrow> c' = c"
  by (auto simp: authenticate_def Let_def dest: store_token_fails
           split: sum.splits if_splits prod.splits option.splits)

lemma cache_hit_iff:
  "cache_ok c \<Longrightarrow>
   (\<exists>t. cache_hit e c = Some t) \<longleftrightarrow>
   (\<exists>t x. cachedToken c = Some t \<and> tokenExpiry c = Some x \<and> clock_check e < x)"
  by (auto simp: cache_ok_def cache_hit_def split: option.splits if_splits)

lemma cache_hit_token: "cache_hit e c = Some t \<Longrightarrow> cachedToken c = Some t"
  by (auto simp: cache_hit_def split: option.splits if_splits)

lemma cache_ok_initial: "cache_ok initial_cache"
  by (simp add: cache_ok_def initial_cache_def)

lemma cache_ok_authenticate:
  assumes "cache_ok c" and "authenticate e c = (r, c', fx)"
  shows "cache_ok c'"
proof (cases r)
  case (Inl m)
  with assms show ?thesis by (auto dest: authenticate_fails_keeps_cache)
next
  case (Inr t)
  show ?thesis
  proof (cases "cache_hit e c")
    case None
    from authenticate_miss_stores [OF None] assms(2) Inr show ?thesis
      by (auto simp: cache_ok_def)
  next
    case (Some u)
    with assms show ?thesis by (simp add: authenticate_hit)
  qed
qed

lemma try_block_cache:
  "try_block e ev c = (r, c', fx) \<Longrightarrow> c' = c \<or> c' = fst (snd (authenticate e c))"
  by (auto simp: try_block_def Let_def split: sum.splits if_splits prod.splits)

text \<open>
  X3. The handler keeps the cache well formed: if every cached token is truthy before a run,
  so it is after, whatever the request and the outcome.
\<close>

lemma cache_ok_handler:
  assumes "cache_ok c"
  shows "cache_ok (fst (snd (handler e ev c)))"
proof -
  obtain r c' fx where t: "try_block e ev c = (r, c', fx)"
    by (cases "try_block e ev c") auto
  obtain ar ac afx where a: "authenticate e c = (ar, ac, afx)"
    by (cases "authenticate e c") auto
  from try_block_cache [OF t] a have "c' = c \<or> c' = ac" by auto
  with assms cache_ok_authenticate [OF assms a] have "cache_ok c'" by auto
  with assms t show ?thesis
    by (auto simp: handler_def split: sum.splits)
qed

text \<open>
  C5. With a cache as the module keeps it, \<open>authenticate\<close> returns the cached token,
  with no network call and the cache untouched, if and only if a token is cached and the clock
  read at line 27 is strictly before the recorded expiry. A token returned without a network
  call is always the cached one. When a token is returned after a network call, that call is
  the one login request, and the cache then holds this token with the expiry set to the clock
  read at line 65 plus 55 minutes.
\<close>

theorem token_cache:
  assumes "cache_ok c"
  shows
    "((\<exists>t. cachedToken c = Some t \<and> authenticate e c = (Inr t, c, []))
        \<longleftrightarrow> (\<exists>t x. cachedToken c = Some t \<and> tokenExpiry c = Some x \<and> clock_check e < x))
     \<and> (\<forall>t c'. authenticate e c = (Inr t, c', []) \<longrightarrow> cachedToken c = Some t \<and> c' = c)
     \<and> (\<forall>t c' fx. authenticate e c = (Inr t, c', fx) \<and> fx \<noteq> [] \<longrightarrow>
           fx = [Fetch (login_request (CLIENT_ID e) (CLIENT_SECRET e))]
           \<and> c' = \<lparr>cachedToken = Some t, tokenExpiry = Some (clock_store e + 55 * 60 * 1000)\<rparr>)"
proof -
  have reuse: "(\<exists>t. cachedToken c = Some t \<and> authenticate e c = (Inr t, c, []))
        \<longleftrightarrow> (\<exists>t x. cachedToken c = Some t \<and> tokenExpiry c = Some x \<and> clock_check e < x)"
    (is "?L \<longleftrightarrow> ?R")
  proof
    assume ?L
    then obtain t where t: "authenticate e c = (Inr t, c, [])" by blast
    have "cache_hit e c \<noteq> None"
    proof
      assume "cache_hit e c = None"
      from authenticate_miss_effects [OF this t] show False by simp
    qed
    then have "\<exists>u. cache_hit e c = Some u" by auto
    with cache_hit_iff [OF assms, of e] show ?R by simp
  next
    assume ?R
    with cache_hit_iff [OF assms, of e] obtain u where u: "cache_hit e c = Some u" by auto
    from cache_hit_token [OF u] authenticate_hit [OF u] show ?L by simp
  qed
  have silent: "\<forall>t c'. authenticate e c = (Inr t, c', []) \<longrightarrow> cachedToken c = Some t \<and> c' = c"
  proof (intro allI impI)
    fix t c'
    assume a: "authenticate e c = (Inr t, c', [])"
    show "cachedToken c = Some t \<and> c' = c"
    proof (cases "cache_hit e c")
      case None
      from authenticate_miss_effects [OF None a] show ?thesis by simp
    next
      case (Some u)
      from authenticate_hit [OF Some] a cache_hit_token [OF Some] show ?thesis by simp
    qed
  qed
  have login: "\<forall>t c' fx. authenticate e c = (Inr t, c', fx) \<and> fx \<noteq> [] \<longrightarrow>
           fx = [Fetch (login_request (CLIENT_ID e) (CLIENT_SECRET e))]
           \<and> c' = \<lparr>cachedToken = Some t, tokenExpiry = Some (clock_store e + 55 * 60 * 1000)\<rparr>"
  proof (intro allI impI)
    fix t c' fx
    assume a: "authenticate e c = (Inr t, c', fx) \<and> fx \<noteq> []"
    have miss: "cache_hit e c = None"
    proof (cases "cache_hit e c")
      case (Some u)
      from authenticate_hit [OF Some] a show ?thesis by simp
    qed simp
    from a authenticate_miss_effects [OF miss] authenticate_miss_stores [OF miss]
    show "fx = [Fetch (login_request (CLIENT_ID e) (CLIENT_SECRET e))]
           \<and> c' = \<lparr>cachedToken = Some t, tokenExpiry = Some (clock_store e + 55 * 60 * 1000)\<rparr>"
      by blast
  qed
  show ?thesis by (rule conjI [OF reuse conjI [OF silent login]])
qed

theorem token_cache_witness:
  "authenticate (example_env login_ok deposit_ok) warm_cache = (Inr (JStr ''jwt-0''), warm_cache, [])
   \<and> authenticate (example_env login_ok deposit_ok) stale_cache =
       (Inr (JStr ''jwt-1''),
        \<lparr>cachedToken = Some (JStr ''jwt-1''), tokenExpiry = Some 3302000\<rparr>,
        [Fetch (login_request (Some ''client-1'') (Some ''secret-1''))])"
proof -
  let ?e = "example_env login_ok deposit_ok"
  have ok1: "cache_ok warm_cache" and ok2: "cache_ok stale_cache"
    by (simp_all add: cache_ok_def warm_cache_def stale_cache_def)
  have "\<exists>t x. cachedToken warm_cache = Some t \<and> tokenExpiry warm_cache = Some x
      \<and> clock_check ?e < x"
    by (simp add: warm_cache_def example_env_def)
  with token_cache [OF ok1, of ?e]
  have "\<exists>t. cachedToken warm_cache = Some t \<and> authenticate ?e warm_cache = (Inr t, warm_cache, [])"
    by blast
  then have 1: "authenticate ?e warm_cache = (Inr (JStr ''jwt-0''), warm_cache, [])"
    by (auto simp: warm_cache_def)
  have run: "fst (authenticate ?e stale_cache) = Inr (JStr ''jwt-1'')
      \<and> snd (snd (authenticate ?e stale_cache)) \<noteq> []"
    by (simp add: authenticate_def cache_hit_def stale_cache_def example_env_def truthy_str_def
        login_request_def API_URL_def login_ok_def store_token_def token_of_def truthy_val_def)
  obtain c' fx where a: "authenticate ?e stale_cache = (Inr (JStr ''jwt-1''), c', fx)"
    and fx: "fx \<noteq> []"
    using run by (cases "authenticate ?e stale_cache") auto
  from token_cache [OF ok2, of ?e] a fx
  have "fx = [Fetch (login_request (CLIENT_ID ?e) (CLIENT_SECRET ?e))]
      \<and> c' = \<lparr>cachedToken = Some (JStr ''jwt-1''), tokenExpiry = Some (clock_store ?e + 55 * 60 * 1000)\<rparr>"
    by blast
  with a have 2: "authenticate ?e stale_cache =
       (Inr (JStr ''jwt-1''),
        \<lparr>cachedToken = Some (JStr ''jwt-1''), tokenExpiry = Some 3302000\<rparr>,
        [Fetch (login_request (Some ''client-1'') (Some ''secret-1''))])"
    by (simp add: example_env_def)
  from 1 2 show ?thesis by simp
qed

lemma token_of_not_null:
  "data \<noteq> JNull \<Longrightarrow>
   token_of e data = Inr (or_else (field data ''token'') (field data ''access_token''))"
  by (simp add: token_of_def member_field or_else_def)

lemma token_of_null: "token_of e JNull = Inl (null_message e ''token'')"
  by (simp add: token_of_def)

lemma store_token_result:
  "fst (store_token e c (Inr data)) =
     (if data = JNull then Inl (null_message e ''token'')
      else (case or_else (field data ''token'') (field data ''access_token'') of
              None \<Rightarrow> Inl msg_no_token
            | Some t \<Rightarrow> if truthy t then Inr t else Inl msg_no_token))"
  by (auto simp: store_token_def token_of_null token_of_not_null split: option.splits)

text \<open>
  C6. When the login is performed and answered with a success status and a JSON body:
  a truthy \<open>token\<close> field is the token returned; failing that, a truthy
  \<open>access_token\<close> field is; and \<open>authenticate\<close> throws if and only if neither
  field holds a truthy value.
\<close>

theorem login_token:
  assumes miss: "cache_hit e c = None"
    and creds: "truthy_str (CLIENT_ID e)" "truthy_str (CLIENT_SECRET e)"
    and resp: "fetch e (login_request (CLIENT_ID e) (CLIENT_SECRET e)) = Inr r" "ok r"
      "json_result r = Inr data"
  shows
    "(\<forall>t. field data ''token'' = Some t \<and> truthy t \<longrightarrow> fst (authenticate e c) = Inr t)
     \<and> (\<forall>t. \<not> truthy_val (field data ''token'') \<and> field data ''access_token'' = Some t \<and> truthy t
            \<longrightarrow> fst (authenticate e c) = Inr t)
     \<and> ((\<exists>m. fst (authenticate e c) = Inl m)
          \<longleftrightarrow> \<not> truthy_val (field data ''token'') \<and> \<not> truthy_val (field data ''access_token''))"
proof -
  have a: "fst (authenticate e c) = fst (store_token e c (Inr data))"
    using authenticate_login [OF miss creds] resp
    by (simp split: prod.splits)
  show ?thesis
    unfolding a store_token_result
    by (cases "data = JNull") (auto simp: truthy_val_def or_else_def split: option.splits)
qed

theorem login_token_witness:
  "fst (authenticate (example_env login_access_token deposit_ok) initial_cache)
     = Inr (JStr ''jwt-2'')"
proof -
  let ?e = "example_env login_access_token deposit_ok"
  let ?r = "\<lparr>ok = True, status = 200,
          json_result = Inr (JObj [(''token'', JStr []), (''access_token'', JStr ''jwt-2'')]),
          text_result = Inl ''body used already''\<rparr>"
  let ?d = "JObj [(''token'', JStr []), (''access_token'', JStr ''jwt-2'')]"
  have miss: "cache_hit ?e initial_cache = None"
    by (simp add: cache_hit_def initial_cache_def)
  have creds: "truthy_str (CLIENT_ID ?e)" "truthy_str (CLIENT_SECRET ?e)"
    by (simp_all add: example_env_def truthy_str_def)
  have resp: "fetch ?e (login_request (CLIENT_ID ?e) (CLIENT_SECRET ?e)) = Inr ?r" "ok ?r"
    "json_result ?r = Inr ?d"
    by (simp_all add: example_env_def login_request_def login_access_token_def)
  have "\<not> truthy_val (field ?d ''token'') \<and> field ?d ''access_token'' = Some (JStr ''jwt-2'')
      \<and> truthy (JStr ''jwt-2'')"
    by (simp add: truthy_val_def)
  with login_token [OF miss creds resp] show ?thesis by blast
qed

lemma handler_deposit:
  assumes post: "httpMethod ev = ''POST''"
    and valid: "valid_input e ev a x p"
    and auth: "authenticate e c = (Inr token, c', fx)"
    and resp: "fetch e (deposit_request e ev token a x p) = Inr r"
    and reply: "deposit_reply e r = Inr res"
  shows "handler e ev c = (res, c', fx @ [Fetch (deposit_request e ev token a x p)])"
proof -
  have "try_block e ev c = (Inr res, c', fx @ [Fetch (deposit_request e ev token a x p)])"
    using try_block_valid [OF valid, of c] auth resp reply by simp
  then show ?thesis by (rule try_block_returns [OF post])
qed

lemma handler_deposit_raises:
  assumes post: "httpMethod ev = ''POST''"
    and valid: "valid_input e ev a x p"
    and auth: "authenticate e c = (Inr token, c', fx)"
    and resp: "fetch e (deposit_request e ev token a x p) = Inr r"
    and reply: "deposit_reply e r = Inl m"
  shows "fst (handler e ev c) = internal_error_result m"
proof -
  have "fst (try_block e ev c) = Inl m"
    using try_block_valid [OF valid, of c] auth resp reply by simp
  then show ?thesis by (rule try_block_raises [OF post])
qed

text \<open>
  C7, as amended. When the deposit call of a POST request is answered with a non-success
  status and a JSON body other than null, the result has that same status, the fixed headers,
  and a body of two fields: \<open>error\<close>, which is the provider's \<open>error\<close> field when
  that is truthy, else its \<open>message\<close> field when that is truthy, else the default text;
  and \<open>details\<close>, the whole parsed answer.
\<close>

theorem upstream_error_forwarded:
  assumes post: "httpMethod ev = ''POST''"
    and valid: "valid_input e ev a x p"
    and auth: "authenticate e c = (Inr token, c', fx)"
    and resp: "fetch e (deposit_request e ev token a x p) = Inr r"
    and fail: "\<not> ok r"
    and json: "json_result r = Inr d"
    and not_null: "d \<noteq> JNull"
  shows
    "\<exists>err. handler e ev c =
        (\<lparr>statusCode = status r, headers = Some cors_headers,
          body = JSON_stringify (JObj [(''error'', err), (''details'', d)])\<rparr>,
         c', fx @ [Fetch (deposit_request e ev token a x p)])
      \<and> (\<forall>v. field d ''error'' = Some v \<and> truthy v \<longrightarrow> err = v)
      \<and> (\<forall>v. \<not> truthy_val (field d ''error'') \<and> field d ''message'' = Some v \<and> truthy v
             \<longrightarrow> err = v)
      \<and> (\<not> truthy_val (field d ''error'') \<and> \<not> truthy_val (field d ''message'')
             \<longrightarrow> err = JStr msg_unknown)"
proof -
  let ?err = "or_else (field d ''error'') (or_else (field d ''message'') (Some (JStr msg_unknown)))"
  obtain v where v: "?err = Some v"
    by (cases ?err) (auto simp: or_else_def truthy_val_def split: if_splits)
  have "deposit_reply e r =
      Inr \<lparr>statusCode = status r, headers = Some cors_headers,
           body = JSON_stringify (JObj [(''error'', v), (''details'', d)])\<rparr>"
    using fail json v by (simp add: deposit_reply_def error_of_not_null [OF not_null]
        stringify_object_def)
  from handler_deposit [OF post valid auth resp this]
  have h: "handler e ev c =
        (\<lparr>statusCode = status r, headers = Some cors_headers,
          body = JSON_stringify (JObj [(''error'', v), (''details'', d)])\<rparr>,
         c', fx @ [Fetch (deposit_request e ev token a x p)])" .
  have 1: "\<forall>w. field d ''error'' = Some w \<and> truthy w \<longrightarrow> v = w"
    using v by (auto simp: or_else_def truthy_val_def)
  have 2: "\<forall>w. \<not> truthy_val (field d ''error'') \<and> field d ''message'' = Some w \<and> truthy w
             \<longrightarrow> v = w"
    using v by (auto simp: or_else_def truthy_val_def)
  have 3: "\<not> truthy_val (field d ''error'') \<and> \<not> truthy_val (field d ''message'')
             \<longrightarrow> v = JStr msg_unknown"
    using v by (auto simp: or_else_def)
  from h 1 2 3 show ?thesis by blast
qed

lemma example_login:
  "authenticate (example_env login_ok d) initial_cache =
     (Inr (JStr ''jwt-1''), fresh_cache,
      [Fetch (login_request (Some ''client-1'') (Some ''secret-1''))])"
  by (simp add: authenticate_def cache_hit_def initial_cache_def example_env_def truthy_str_def
      login_request_def API_URL_def login_ok_def store_token_def token_of_def truthy_val_def
      fresh_cache_def)

lemma example_deposit:
  "fetch (example_env l d) (order_deposit_request (example_env l d)) = d"
  by (simp add: example_env_def order_deposit_request_def deposit_request_def API_URL_def)

theorem upstream_error_forwarded_witness:
  "handler (example_env login_ok deposit_402) order_event initial_cache =
     (\<lparr>statusCode = 402, headers = Some cors_headers,
       body = JSON_stringify (JObj
         [(''error'', JStr ''insufficient_funds''),
          (''details'', JObj [(''error'', JStr ''insufficient_funds'')])])\<rparr>,
      fresh_cache,
      [Fetch (login_request (Some ''client-1'') (Some ''secret-1'')),
       Fetch (order_deposit_request (example_env login_ok deposit_402))])"
proof -
  let ?e = "example_env login_ok deposit_402"
  let ?r = "\<lparr>ok = False, status = 402,
          json_result = Inr (JObj [(''error'', JStr ''insufficient_funds'')]),
          text_result = Inl ''body used already''\<rparr>"
  let ?d = "JObj [(''error'', JStr ''insufficient_funds'')]"
  have post: "httpMethod order_event = ''POST''" by (simp add: order_event_def)
  have resp: "fetch ?e (deposit_request ?e order_event (JStr ''jwt-1'')
       (Some (JNum 10)) (Some (JStr ''order-1'')) (Some (JObj [(''name'', JStr ''Ana'')]))) = Inr ?r"
    using example_deposit [of login_ok deposit_402]
    by (simp add: order_deposit_request_def deposit_402_def)
  have r: "\<not> ok ?r" "json_result ?r = Inr ?d" "?d \<noteq> JNull" by simp_all
  from upstream_error_forwarded [OF post order_valid example_login resp r]
  obtain err where h: "handler ?e order_event initial_cache =
        (\<lparr>statusCode = status ?r, headers = Some cors_headers,
          body = JSON_stringify (JObj [(''error'', err), (''details'', ?d)])\<rparr>,
         fresh_cache, [Fetch (login_request (Some ''client-1'') (Some ''secret-1''))]
           @ [Fetch (deposit_request ?e order_event (JStr ''jwt-1'')
       (Some (JNum 10)) (Some (JStr ''order-1'')) (Some (JObj [(''name'', JStr ''Ana'')])))])"
    and e: "\<forall>v. field ?d ''error'' = Some v \<and> truthy v \<longrightarrow> err = v"
    by blast
  from e have "err = JStr ''insufficient_funds''" by simp
  with h show ?thesis by (simp add: order_deposit_request_def)
qed

text \<open>
  C7 as stated fails when the JSON body of the provider's answer is \<^verbatim>\<open>null\<close>:
  reading \<^verbatim>\<open>depositData.error\<close> throws, and the result is the 500 of the catch, not
  the provider's 402.
\<close>

theorem null_error_body_counterexample:
  "fetch (example_env login_ok deposit_402_null)
       (order_deposit_request (example_env login_ok deposit_402_null)) =
     Inr \<lparr>ok = False, status = 402, json_result = Inr JNull,
          text_result = Inl ''body used already''\<rparr>
   \<and> handler (example_env login_ok deposit_402_null) order_event initial_cache =
     (\<lparr>statusCode = 500, headers = Some cors_headers,
       body = JSON_stringify (JObj
         [(''error'', JStr msg_internal),
          (''details'', JStr ''Cannot read properties of null (reading error)'')])\<rparr>,
      fresh_cache,
      [Fetch (login_request (Some ''client-1'') (Some ''secret-1'')),
       Fetch (order_deposit_request (example_env login_ok deposit_402_null)),
       Console_error msg_log ''Cannot read properties of null (reading error)''])"
proof -
  let ?e = "example_env login_ok deposit_402_null"
  have f: "fetch ?e (order_deposit_request ?e) =
     Inr \<lparr>ok = False, status = 402, json_result = Inr JNull,
          text_result = Inl ''body used already''\<rparr>"
    by (simp add: example_deposit deposit_402_null_def)
  have t: "try_block ?e order_event initial_cache =
      (Inl ''Cannot read properties of null (reading error)'', fresh_cache,
       [Fetch (login_request (Some ''client-1'') (Some ''secret-1'')),
        Fetch (order_deposit_request ?e)])"
    using try_block_valid [OF order_valid, of login_ok deposit_402_null initial_cache] f
    by (simp add: example_login order_deposit_request_def deposit_reply_def error_of_null)
       (simp add: example_env_def)
  have "handler ?e order_event initial_cache =
     (internal_error_result ''Cannot read properties of null (reading error)'', fresh_cache,
      [Fetch (login_request (Some ''client-1'') (Some ''secret-1'')),
       Fetch (order_deposit_request ?e),
       Console_error msg_log ''Cannot read properties of null (reading error)''])"
    by (simp add: handler_def order_event_def [THEN arg_cong, of httpMethod] t)
  with f show ?thesis
    by (simp add: internal_error_result_def stringify_object_def)
qed

lemma defined_props_keys: "fst ` set (defined_props ps) \<subseteq> fst ` set ps"
  by (induction ps rule: defined_props.induct) auto

lemma defined_props_distinct:
  "distinct (map fst ps) \<Longrightarrow> distinct (map fst (defined_props ps))"
proof (induction ps rule: defined_props.induct)
  case (3 k v ps)
  then show ?case using defined_props_keys [of ps] by auto
qed simp_all

lemma map_of_defined_props:
  "distinct (map fst ps) \<Longrightarrow>
   map_of (defined_props ps) k = (case map_of ps k of None \<Rightarrow> None | Some v \<Rightarrow> v)"
proof (induction ps rule: defined_props.induct)
  case (2 k' ps)
  then have "k' \<notin> fst ` set (defined_props ps)"
    using defined_props_keys [of ps] by auto
  then have "map_of (defined_props ps) k' = None"
    by (simp add: map_of_eq_None_iff)
  with 2 show ?case by auto
qed simp_all

text \<open>
  C8, as amended. When the deposit call of a POST request is answered with a success status
  and a JSON body other than null, the result is 200 with the fixed headers and a JSON object
  whose fields are exactly those of \<open>transaction_id\<close>, \<open>qr_code_image\<close>,
  \<open>pix_code\<close> and \<open>status\<close> that the provider's answer has, each with the
  provider's value; every other field of the answer is dropped. When the answer has all four,
  the body is those four fields in this order.
\<close>

theorem deposit_success:
  assumes post: "httpMethod ev = ''POST''"
    and valid: "valid_input e ev a x p"
    and auth: "authenticate e c = (Inr token, c', fx)"
    and resp: "fetch e (deposit_request e ev token a x p) = Inr r"
    and success: "ok r"
    and json: "json_result r = Inr d"
    and not_null: "d \<noteq> JNull"
  shows
    "\<exists>kvs. handler e ev c =
        (\<lparr>statusCode = 200, headers = Some cors_headers, body = JSON_stringify (JObj kvs)\<rparr>,
         c', fx @ [Fetch (deposit_request e ev token a x p)])
      \<and> distinct (map fst kvs)
      \<and> (\<forall>k. map_of kvs k = (if k \<in> set four_fields then field d k else None))
      \<and> (\<forall>t q w s. field d ''transaction_id'' = Some t \<and> field d ''qr_code_image'' = Some q
              \<and> field d ''pix_code'' = Some w \<and> field d ''status'' = Some s \<longrightarrow>
            kvs = [(''transaction_id'', t), (''qr_code_image'', q), (''pix_code'', w),
                   (''status'', s)])"
proof -
  let ?ps = "[(''transaction_id'', field d ''transaction_id''),
              (''qr_code_image'', field d ''qr_code_image''),
              (''pix_code'', field d ''pix_code''),
              (''status'', field d ''status'')]"
  have dist: "distinct (map fst ?ps)" by simp
  have "deposit_reply e r =
      Inr \<lparr>statusCode = 200, headers = Some cors_headers,
           body = JSON_stringify (JObj (defined_props ?ps))\<rparr>"
    using success json
    by (simp add: deposit_reply_def success_result_not_null [OF not_null] stringify_object_def)
  from handler_deposit [OF post valid auth resp this]
  have h: "handler e ev c =
        (\<lparr>statusCode = 200, headers = Some cors_headers,
          body = JSON_stringify (JObj (defined_props ?ps))\<rparr>,
         c', fx @ [Fetch (deposit_request e ev token a x p)])" .
  have 1: "distinct (map fst (defined_props ?ps))"
    by (rule defined_props_distinct [OF dist])
  have 2: "\<forall>k. map_of (defined_props ?ps) k = (if k \<in> set four_fields then field d k else None)"
    unfolding map_of_defined_props [OF dist] by (auto simp: four_fields_def)
  have 3: "\<forall>t q w s. field d ''transaction_id'' = Some t \<and> field d ''qr_code_image'' = Some q
              \<and> field d ''pix_code'' = Some w \<and> field d ''status'' = Some s \<longrightarrow>
            defined_props ?ps = [(''transaction_id'', t), (''qr_code_image'', q),
                                 (''pix_code'', w), (''status'', s)]"
    by simp
  from h 1 2 3 show ?thesis by blast
qed

theorem deposit_success_witness:
  "handler (example_env login_ok deposit_ok) order_event initial_cache =
     (\<lparr>statusCode = 200, headers = Some cors_headers,
       body = JSON_stringify (JObj [(''transaction_id'', JStr ''tx-1''),
                                  (''qr_code_image'', JStr ''image-1''),
                                  (''pix_code'', JStr ''pix-1''),
                                  (''status'', JStr ''pending'')])\<rparr>,
      fresh_cache,
      [Fetch (login_request (Some ''client-1'') (Some ''secret-1'')),
       Fetch (order_deposit_request (example_env login_ok deposit_ok))])"
proof -
  let ?e = "example_env login_ok deposit_ok"
  let ?d = "JObj [(''transaction_id'', JStr ''tx-1''), (''qr_code_image'', JStr ''image-1''),
                  (''pix_code'', JStr ''pix-1''), (''status'', JStr ''pending''),
                  (''fee'', JNum 2)]"
  let ?r = "\<lparr>ok = True, status = 200, json_result = Inr ?d,
            text_result = Inl ''body used already''\<rparr>"
  have post: "httpMethod order_event = ''POST''" by (simp add: order_event_def)
  have resp: "fetch ?e (deposit_request ?e order_event (JStr ''jwt-1'')
       (Some (JNum 10)) (Some (JStr ''order-1'')) (Some (JObj [(''name'', JStr ''Ana'')]))) = Inr ?r"
    using example_deposit [of login_ok deposit_ok]
    by (simp add: order_deposit_request_def deposit_ok_def)
  have r: "ok ?r" "json_result ?r = Inr ?d" "?d \<noteq> JNull" by simp_all
  from deposit_success [OF post order_valid example_login resp r]
  obtain kvs where h: "handler ?e order_event initial_cache =
        (\<lparr>statusCode = 200, headers = Some cors_headers, body = JSON_stringify (JObj kvs)\<rparr>,
         fresh_cache, [Fetch (login_request (Some ''client-1'') (Some ''secret-1''))]
           @ [Fetch (deposit_request ?e order_event (JStr ''jwt-1'')
       (Some (JNum 10)) (Some (JStr ''order-1'')) (Some (JObj [(''name'', JStr ''Ana'')])))])"
    and k: "\<forall>t q w s. field ?d ''transaction_id'' = Some t \<and> field ?d ''qr_code_image'' = Some q
              \<and> field ?d ''pix_code'' = Some w \<and> field ?d ''status'' = Some s \<longrightarrow>
            kvs = [(''transaction_id'', t), (''qr_code_image'', q), (''pix_code'', w),
                   (''status'', s)]"
    by blast
  from k have "kvs = [(''transaction_id'', JStr ''tx-1''), (''qr_code_image'', JStr ''image-1''),
                      (''pix_code'', JStr ''pix-1''), (''status'', JStr ''pending'')]"
    by simp
  with h show ?thesis by (simp add: order_deposit_request_def)
qed

text \<open>
  C8 as stated fails on two valid JSON answers with a success status: an object that lacks
  three of the four fields gives a 200 whose body has one field only (a property whose value
  is \<^verbatim>\<open>undefined\<close> is not serialised), and the answer \<^verbatim>\<open>null\<close> makes
  \<^verbatim>\<open>depositData.transaction_id\<close> throw, so the result is the 500 of the catch.
\<close>

theorem partial_answer_counterexample:
  "fetch (example_env login_ok deposit_partial)
       (order_deposit_request (example_env login_ok deposit_partial)) =
     Inr \<lparr>ok = True, status = 200,
          json_result = Inr (JObj [(''transaction_id'', JStr ''tx-1''), (''fee'', JNum 2)]),
          text_result = Inl ''body used already''\<rparr>
   \<and> fst (handler (example_env login_ok deposit_partial) order_event initial_cache) =
     \<lparr>statusCode = 200, headers = Some cors_headers,
      body = JSON_stringify (JObj [(''transaction_id'', JStr ''tx-1'')])\<rparr>
   \<and> fetch (example_env login_ok deposit_null)
       (order_deposit_request (example_env login_ok deposit_null)) =
     Inr \<lparr>ok = True, status = 200, json_result = Inr JNull,
          text_result = Inl ''body used already''\<rparr>
   \<and> fst (handler (example_env login_ok deposit_null) order_event initial_cache) =
     \<lparr>statusCode = 500, headers = Some cors_headers,
      body = JSON_stringify (JObj
        [(''error'', JStr msg_internal),
         (''details'', JStr ''Cannot read properties of null (reading transaction_id)'')])\<rparr>"
proof -
  let ?e1 = "example_env login_ok deposit_partial"
  let ?e2 = "example_env login_ok deposit_null"
  have post: "httpMethod order_event = ''POST''" by (simp add: order_event_def)
  have f1: "fetch ?e1 (order_deposit_request ?e1) =
     Inr \<lparr>ok = True, status = 200,
          json_result = Inr (JObj [(''transaction_id'', JStr ''tx-1''), (''fee'', JNum 2)]),
          text_result = Inl ''body used already''\<rparr>"
    by (simp add: example_deposit deposit_partial_def)
  have f2: "fetch ?e2 (order_deposit_request ?e2) =
     Inr \<lparr>ok = True, status = 200, json_result = Inr JNull,
          text_result = Inl ''body used already''\<rparr>"
    by (simp add: example_deposit deposit_null_def)
  have r1: "deposit_reply ?e1 \<lparr>ok = True, status = 200,
          json_result = Inr (JObj [(''transaction_id'', JStr ''tx-1''), (''fee'', JNum 2)]),
          text_result = Inl ''body used already''\<rparr> =
      Inr \<lparr>statusCode = 200, headers = Some cors_headers,
      body = JSON_stringify (JObj [(''transaction_id'', JStr ''tx-1'')])\<rparr>"
    by (simp add: deposit_reply_def success_result_def stringify_object_def)
  have r2: "deposit_reply ?e2 \<lparr>ok = True, status = 200, json_result = Inr JNull,
          text_result = Inl ''body used already''\<rparr> =
      Inl ''Cannot read properties of null (reading transaction_id)''"
    by (simp add: deposit_reply_def success_result_null) (simp add: example_env_def)
  have h1: "fst (handler ?e1 order_event initial_cache) =
     \<lparr>statusCode = 200, headers = Some cors_headers,
      body = JSON_stringify (JObj [(''transaction_id'', JStr ''tx-1'')])\<rparr>"
    using handler_deposit [OF post order_valid example_login
        f1 [unfolded order_deposit_request_def] r1]
    by simp
  have h2: "fst (handler ?e2 order_event initial_cache) =
      internal_error_result ''Cannot read properties of null (reading transaction_id)''"
    by (rule handler_deposit_raises [OF post order_valid example_login
        f2 [unfolded order_deposit_request_def] r2])
  from f1 h1 f2 h2 show ?thesis
    by (simp add: internal_error_result_def stringify_object_def)
qed

lemma fetches_append: "fetches (fx @ gx) = fetches fx @ fetches gx"
  by (induction fx rule: fetches.induct) simp_all

lemma handler_fetches:
  assumes post: "httpMethod ev = ''POST''"
    and valid: "valid_input e ev a x p"
    and auth: "authenticate e c = (Inr token, c', fx)"
  shows "fetches (snd (snd (handler e ev c))) =
     fetches fx @ [deposit_request e ev token a x p]"
  using try_block_valid [OF valid, of c] auth post
  by (auto simp: handler_post fetches_append split: sum.splits)

text \<open>
  X1. For a POST request with a valid body whose authentication succeeds, the network calls
  of the run are: the one login request when the cache gives no token (absent or expired),
  none when it does; then the deposit request with the token.
\<close>

theorem login_precedes_deposit:
  assumes post: "httpMethod ev = ''POST''"
    and valid: "valid_input e ev a x p"
    and auth: "fst (authenticate e c) = Inr token"
  shows "fetches (snd (snd (handler e ev c))) =
     (if cache_hit e c = None then [login_request (CLIENT_ID e) (CLIENT_SECRET e)] else [])
     @ [deposit_request e ev token a x p]"
proof -
  obtain c' fx where a: "authenticate e c = (Inr token, c', fx)"
    using auth by (cases "authenticate e c") auto
  have "fetches fx =
      (if cache_hit e c = None then [login_request (CLIENT_ID e) (CLIENT_SECRET e)] else [])"
  proof (cases "cache_hit e c")
    case None
    from authenticate_miss_effects [OF None a] None show ?thesis by simp
  next
    case (Some u)
    from authenticate_hit [OF Some] a Some show ?thesis by simp
  qed
  with handler_fetches [OF post valid a] show ?thesis by simp
qed

theorem login_precedes_deposit_witness:
  "fetches (snd (snd (handler (example_env login_ok deposit_ok) order_event initial_cache))) =
     [login_request (Some ''client-1'') (Some ''secret-1''),
      order_deposit_request (example_env login_ok deposit_ok)]"
proof -
  let ?e = "example_env login_ok deposit_ok"
  have post: "httpMethod order_event = ''POST''" by (simp add: order_event_def)
  have auth: "fst (authenticate ?e initial_cache) = Inr (JStr ''jwt-1'')"
    by (simp add: example_login)
  have miss: "cache_hit ?e initial_cache = None"
    by (simp add: cache_hit_def initial_cache_def)
  from login_precedes_deposit [OF post order_valid auth] miss
  show ?thesis by (simp add: order_deposit_request_def example_env_def)
qed

text \<open>
  X2. After a run that logged in, a second valid POST request whose clock read at line 27 is
  before that login's clock read at line 65 plus 55 minutes makes the deposit call only: no
  further login.
\<close>

theorem second_call_reuses_token:
  assumes first: "authenticate e1 c = (Inr token, c1, fx1)" and login: "fx1 \<noteq> []"
    and window: "clock_check e2 < clock_store e1 + 55 * 60 * 1000"
    and post: "httpMethod ev = ''POST''"
    and valid: "valid_input e2 ev a x p"
  shows "fetches (snd (snd (handler e2 ev c1))) = [deposit_request e2 ev token a x p]"
proof -
  have miss: "cache_hit e1 c = None"
  proof (cases "cache_hit e1 c")
    case (Some u)
    from authenticate_hit [OF Some] first login show ?thesis by simp
  qed simp
  from authenticate_miss_stores [OF miss first]
  have t: "truthy token"
    and c1: "c1 = \<lparr>cachedToken = Some token, tokenExpiry = Some (clock_store e1 + 55 * 60 * 1000)\<rparr>"
    by simp_all
  from t c1 window have hit: "cache_hit e2 c1 = Some token"
    by (simp add: cache_hit_def)
  from handler_fetches [OF post valid authenticate_hit [OF hit]]
  show ?thesis by simp
qed

theorem second_call_reuses_token_witness:
  "fetches (snd (snd (handler (example_env login_ok deposit_ok) order_event fresh_cache))) =
     [order_deposit_request (example_env login_ok deposit_ok)]"
proof -
  let ?e = "example_env login_ok deposit_ok"
  have post: "httpMethod order_event = ''POST''" by (simp add: order_event_def)
  have login: "[Fetch (login_request (Some ''client-1'') (Some ''secret-1''))] \<noteq> []" by simp
  have window: "clock_check ?e < clock_store ?e + 55 * 60 * 1000"
    by (simp add: example_env_def)
  from second_call_reuses_token [OF example_login login window post order_valid]
  show ?thesis by (simp add: order_deposit_request_def)
qed

theorem cache_ok_handler_witness:
  "cache_ok (fst (snd (handler (example_env login_ok deposit_ok) order_event initial_cache)))"
  using cache_ok_handler [OF cache_ok_initial] .

end
